theory Spec2Isabelle
  imports Main "HOL-Library.Word"
begin

unbundle bit_operations_syntax

section \<open>The recording front end of Speaky (src/App.tsx, src/App.vue)\<close>

subsection \<open>Data model (src/components/types.ts)\<close>

text \<open>
  \<^verbatim>\<open>type RecordingState = "idle" | "recording" | "processing"\<close>: the three string
  literals become the three constructors.
\<close>

datatype RecordingState = Idle | Recording | Processing

text \<open>\<^verbatim>\<open>Toast["type"]\<close> is \<^verbatim>\<open>"success" | "error" | "info"\<close>.\<close>

datatype ToastType = Success | Error | Info

text \<open>
  \<^verbatim>\<open>interface Toast { id: number; message: string; type: ... }\<close>. The field
  \<^verbatim>\<open>id\<close> is suffixed, since \<open>id\<close> is the identity function of HOL.
\<close>

record Toast =
  id_toast :: int
  message :: string
  type :: ToastType

text \<open>The two backend commands that the component passes to Tauri's \<^verbatim>\<open>invoke\<close>.\<close>

datatype command = start_recording | stop_recording

text \<open>
  What a callback of the component does, in the order in which it does it: the state
  setters of React, the calls of \<^verbatim>\<open>invoke\<close>, \<^verbatim>\<open>showToast\<close> and
  \<^verbatim>\<open>console.error\<close>. The type \<open>'e\<close> is the type of the value a rejected
  \<^verbatim>\<open>invoke\<close> promise carries.
\<close>

datatype 'e action =
    SetState RecordingState
  | SetTranscript string
  | Invoke command
  | ShowToast string ToastType
  | ConsoleError string 'e

text \<open>
  The state of the React component \<^verbatim>\<open>App\<close> that the recording callbacks read and
  write (\<^verbatim>\<open>useState\<close> hooks \<^verbatim>\<open>state\<close>, \<^verbatim>\<open>transcript\<close>,
  \<^verbatim>\<open>toasts\<close>), with the trace of everything done so far.
\<close>

record 'e App =
  state :: RecordingState
  transcript :: string
  toasts :: "Toast list"
  trace :: "'e action list"

subsection \<open>Primitive effects\<close>

definition setState :: "RecordingState \<Rightarrow> 'e App \<Rightarrow> 'e App" where
  "setState s a = a\<lparr>state := s, trace := trace a @ [SetState s]\<rparr>"

definition setTranscript :: "string \<Rightarrow> 'e App \<Rightarrow> 'e App" where
  "setTranscript t a = a\<lparr>transcript := t, trace := trace a @ [SetTranscript t]\<rparr>"

text \<open>
  \<^verbatim>\<open>showToast(message, type = "error")\<close> appends
  \<^verbatim>\<open>{ id: Date.now(), message, type }\<close> to the toasts; the clock value is the
  parameter \<open>now\<close>. The timer that removes the toast 4000 ms later is outside the model.
\<close>

definition showToast :: "int \<Rightarrow> string \<Rightarrow> ToastType \<Rightarrow> 'e App \<Rightarrow> 'e App" where
  "showToast now msg ty a =
     a\<lparr>toasts := toasts a @ [\<lparr>id_toast = now, message = msg, type = ty\<rparr>],
       trace := trace a @ [ShowToast msg ty]\<rparr>"

definition consoleError :: "string \<Rightarrow> 'e \<Rightarrow> 'e App \<Rightarrow> 'e App" where
  "consoleError label e a = a\<lparr>trace := trace a @ [ConsoleError label e]\<rparr>"

text \<open>
  \<^verbatim>\<open>await invoke(cmd)\<close>: the call is recorded; the backend's answer is the
  parameter \<open>backend\<close>, \<open>None\<close> when the promise resolves and \<open>Some e\<close> when it is
  rejected with \<open>e\<close>.
\<close>

definition invoke :: "command \<Rightarrow> 'e App \<Rightarrow> 'e App" where
  "invoke cmd a = a\<lparr>trace := trace a @ [Invoke cmd]\<rparr>"

subsection \<open>The callbacks of App.tsx\<close>

text \<open>
  \<^verbatim>\<open>
  const startRecording = useCallback(async () => {
    if (state !== "idle") return;
    try {
      await invoke("start_recording");
    } catch (e) {
      console.error("Failed to start recording:", e);
      showToast(String(e));
      setState("idle");
    }
  }, [state, showToast]);
  \<close>
  \<open>toString\<close> is JavaScript's \<^verbatim>\<open>String(e)\<close>.
\<close>

definition startRecording ::
  "(command \<Rightarrow> 'e option) \<Rightarrow> ('e \<Rightarrow> string) \<Rightarrow> int \<Rightarrow> 'e App \<Rightarrow> 'e App" where
  "startRecording backend toString now a =
     (if state a \<noteq> Idle then a
      else
        let a1 = invoke start_recording a in
        case backend start_recording of
          None \<Rightarrow> a1
        | Some e \<Rightarrow>
            setState Idle
              (showToast now (toString e) Error
                (consoleError ''Failed to start recording:'' e a1)))"

text \<open>
  \<^verbatim>\<open>
  const stopRecording = useCallback(async () => {
    if (state !== "recording") return;
    setState("processing");
    try {
      await invoke("stop_recording");
    } catch (e) {
      console.error("Failed to stop recording:", e);
      showToast(String(e));
      setState("idle");
    }
  }, [state, showToast]);
  \<close>
\<close>

definition stopRecording ::
  "(command \<Rightarrow> 'e option) \<Rightarrow> ('e \<Rightarrow> string) \<Rightarrow> int \<Rightarrow> 'e App \<Rightarrow> 'e App" where
  "stopRecording backend toString now a =
     (if state a \<noteq> Recording then a
      else
        let a1 = invoke stop_recording (setState Processing a) in
        case backend stop_recording of
          None \<Rightarrow> a1
        | Some e \<Rightarrow>
            setState Idle
              (showToast now (toString e) Error
                (consoleError ''Failed to stop recording:'' e a1)))"

text \<open>
  The four listeners registered in \<^verbatim>\<open>setup\<close>:
  \<^verbatim>\<open>
  listen("recording-started", () => { setState("recording"); setTranscript(""); });
  listen("recording-stopped", (event) => { setState("idle"); setTranscript(event.payload as string); });
  listen("transcript-update", (event) => { setTranscript(event.payload as string); });
  listen("error", (event) => { showToast(event.payload as string); });
  \<close>
\<close>

datatype event =
    recording_started
  | recording_stopped string
  | transcript_update string
  | error string

fun listen :: "int \<Rightarrow> event \<Rightarrow> 'e App \<Rightarrow> 'e App" where
  "listen now recording_started a = setTranscript [] (setState Recording a)"
| "listen now (recording_stopped payload) a = setTranscript payload (setState Idle a)"
| "listen now (transcript_update payload) a = setTranscript payload a"
| "listen now (error payload) a = showToast now payload Error a"

text \<open>The backend commands issued between two points of a trace.\<close>

definition issued :: "'e App \<Rightarrow> 'e App \<Rightarrow> command list" where
  "issued a a' =
     concat (map (\<lambda>x. case x of Invoke c \<Rightarrow> [c] | _ \<Rightarrow> [])
                 (drop (length (trace a)) (trace a')))"

subsection \<open>The listeners of App.vue\<close>

text \<open>
  The Vue component keeps two flags and the transcript
  (\<^verbatim>\<open>isRecording\<close>, \<^verbatim>\<open>isProcessing\<close>, \<^verbatim>\<open>transcript\<close>, all
  \<^verbatim>\<open>ref\<close>s); the transcript field is suffixed since the React record owns the name.
  \<^verbatim>\<open>
  listen("recording-started", () => {
    isRecording.value = true; isProcessing.value = false; transcript.value = ""; });
  listen("recording-stopped", (event) => {
    isRecording.value = false; isProcessing.value = false;
    transcript.value = event.payload as string; });
  listen("transcript-update", (event) => { transcript.value = event.payload as string; });
  \<close>
  The Vue component registers no listener for \<^verbatim>\<open>error\<close>, so that event leaves it
  as it is.
\<close>

record VueApp =
  isRecording :: bool
  isProcessing :: bool
  transcript_vue :: string

fun listen_vue :: "event \<Rightarrow> VueApp \<Rightarrow> VueApp" where
  "listen_vue recording_started v =
     v\<lparr>isRecording := True, isProcessing := False, transcript_vue := []\<rparr>"
| "listen_vue (recording_stopped payload) v =
     v\<lparr>isRecording := False, isProcessing := False, transcript_vue := payload\<rparr>"
| "listen_vue (transcript_update payload) v = v\<lparr>transcript_vue := payload\<rparr>"
| "listen_vue (error payload) v = v"


section \<open>The configuration and its provider list (src/components/types.ts, src/App.tsx)\<close>

subsection \<open>Data model\<close>

text \<open>\<^verbatim>\<open>type PostProcessMode = "General" | "Code" | "Meeting"\<close>\<close>

datatype PostProcessMode = General | Code | Meeting

text \<open>
  \<^verbatim>\<open>type AsrProviderType = "doubao" | "whisper_local" | "whisper_api"\<close>; the
  constructors are capitalised, the lower-case names being fields of \<^verbatim>\<open>AsrConfig\<close>.
\<close>

datatype AsrProviderType = Doubao | WhisperLocal | WhisperApi

text \<open>
  \<^verbatim>\<open>interface LlmProvider { id; name; api_base; api_key; model }\<close>, all strings.
\<close>

record LlmProvider =
  id_provider :: string
  name :: string
  api_base :: string
  api_key :: string
  model :: string

text \<open>
  \<^verbatim>\<open>interface PostProcessConfig { enabled: boolean; providers: LlmProvider[];
  active_provider_id: string; mode: PostProcessMode }\<close>
\<close>

record PostProcessConfig =
  enabled :: bool
  providers :: "LlmProvider list"
  active_provider_id :: string
  mode :: PostProcessMode

text \<open>
  The three provider configurations of \<^verbatim>\<open>AsrConfig\<close>. Their fields repeat names of
  \<^verbatim>\<open>Config\<close> and \<^verbatim>\<open>LlmProvider\<close> and are suffixed; a field written
  \<^verbatim>\<open>f?: T\<close> is an option.
\<close>

record DoubaoConfig =
  app_id_doubao :: string
  access_token_doubao :: string
  secret_key_doubao :: string

record WhisperLocalConfig =
  model_size :: string
  language :: string
  translate_to_english :: bool

record WhisperApiConfig =
  api_key_whisper :: string
  api_base_whisper :: string
  model_whisper :: string
  language_whisper :: "string option"

record AsrConfig =
  active_provider :: AsrProviderType
  doubao :: "DoubaoConfig option"
  whisper_local :: "WhisperLocalConfig option"
  whisper_api :: "WhisperApiConfig option"

text \<open>\<^verbatim>\<open>interface Config\<close>, the value of \<^verbatim>\<open>get_config\<close> and the argument of
  \<^verbatim>\<open>update_config\<close>.\<close>

record Config =
  app_id :: string
  access_token :: string
  secret_key :: string
  shortcut :: string
  auto_type :: bool
  auto_copy :: bool
  auto_start :: bool
  silent_start :: bool
  show_indicator :: bool
  realtime_input :: bool
  postprocess :: PostProcessConfig
  audio_device :: string
  asr :: AsrConfig
  asr_language :: string

definition DEFAULT_SHORTCUT :: string where
  "DEFAULT_SHORTCUT = ''Alt+Space''"

text \<open>
  The initial value of the \<^verbatim>\<open>config\<close> hook, \<^verbatim>\<open>useState<Config>({ ... })\<close>, in the
  copy of the component that imports \<^verbatim>\<open>Config\<close> from types.ts. The older copy
  declares \<^verbatim>\<open>Config\<close> itself, without \<^verbatim>\<open>asr\<close> and \<^verbatim>\<open>asr_language\<close>, and
  starts from the same values of the other fields.
\<close>

definition initialConfig :: Config where
  "initialConfig =
     \<lparr>app_id = [], access_token = [], secret_key = [],
      shortcut = DEFAULT_SHORTCUT,
      auto_type = True, auto_copy = True, auto_start = False, silent_start = False,
      show_indicator = True, realtime_input = False,
      postprocess =
        \<lparr>enabled = False,
         providers = [\<lparr>id_provider = ''default'', name = ''DeepSeek'',
                       api_base = ''https://api.deepseek.com/v1'', api_key = [],
                       model = ''deepseek-chat''\<rparr>],
         active_provider_id = ''default'',
         mode = General\<rparr>,
      audio_device = [],
      asr = \<lparr>active_provider = Doubao,
             doubao = Some \<lparr>app_id_doubao = [], access_token_doubao = [],
                             secret_key_doubao = []\<rparr>,
             whisper_local = None, whisper_api = None\<rparr>,
      asr_language = ''zh''\<rparr>"

text \<open>
  The initial configuration with a second provider, as it is once the OpenAI preset has
  been added to the list.
\<close>

definition twoProviders :: Config where
  "twoProviders =
     initialConfig\<lparr>postprocess := (postprocess initialConfig)
       \<lparr>providers := providers (postprocess initialConfig) @
          [\<lparr>id_provider = ''openai-1'', name = ''OpenAI'',
            api_base = ''https://api.openai.com/v1'', api_key = [],
            model = ''gpt-4o-mini''\<rparr>]\<rparr>\<rparr>"

subsection \<open>JavaScript array and string primitives\<close>

datatype js_error = TypeError

text \<open>
  \<^verbatim>\<open>xs[i]\<close>: the element, or \<^verbatim>\<open>undefined\<close> (here \<open>None\<close>) when \<open>i\<close> is
  not an index of the array.
\<close>

definition at_index :: "'a list \<Rightarrow> int \<Rightarrow> 'a option" where
  "at_index xs i = (if 0 \<le> i \<and> i < int (length xs) then Some (xs ! nat i) else None)"

text \<open>
  \<^verbatim>\<open>xs.filter((x, i) => p(x, i))\<close>: the loop of \<^verbatim>\<open>Array.prototype.filter\<close>,
  which hands the callback each element with its index, counting from 0.
\<close>

fun filter_from :: "('a \<Rightarrow> int \<Rightarrow> bool) \<Rightarrow> int \<Rightarrow> 'a list \<Rightarrow> 'a list" where
  "filter_from p i [] = []"
| "filter_from p i (x # xs) =
     (if p x i then x # filter_from p (i + 1) xs else filter_from p (i + 1) xs)"

definition filter_index :: "('a \<Rightarrow> int \<Rightarrow> bool) \<Rightarrow> 'a list \<Rightarrow> 'a list" where
  "filter_index p xs = filter_from p 0 xs"

text \<open>
  \<^verbatim>\<open>v || d\<close> for a string or \<^verbatim>\<open>undefined\<close> on the left: \<^verbatim>\<open>undefined\<close>
  and the empty string are falsy and give \<open>d\<close>.
\<close>

definition or_else :: "string option \<Rightarrow> string \<Rightarrow> string" where
  "or_else v d = (case v of None \<Rightarrow> d | Some s \<Rightarrow> if s = [] then d else s)"

subsection \<open>deleteProvider\<close>

text \<open>
  \<^verbatim>\<open>
  const deleteProvider = (index: number) => {
    const provider = config.postprocess.providers[index];
    const newProviders = config.postprocess.providers.filter((_, i) => i !== index);
    const newActiveId = config.postprocess.active_provider_id === provider.id
      ? newProviders[0]?.id || ""
      : config.postprocess.active_provider_id;
    setConfig(prev => ({
      ...prev,
      postprocess: { ...prev.postprocess, providers: newProviders, active_provider_id: newActiveId }
    }));
  };
  \<close>
  \<open>config\<close> is the configuration that the callback closed over and \<open>prev\<close> the one that
  React hands to the updater; they are the same value when no other update is pending.
  Reading \<^verbatim>\<open>provider.id\<close> of an \<^verbatim>\<open>undefined\<close> provider throws a
  \<^verbatim>\<open>TypeError\<close> before \<^verbatim>\<open>setConfig\<close> is reached.
\<close>

definition deleteProvider :: "Config \<Rightarrow> Config \<Rightarrow> int \<Rightarrow> js_error + Config" where
  "deleteProvider config prev index =
     (let provider = at_index (providers (postprocess config)) index;
          newProviders = filter_index (\<lambda>_ i. i \<noteq> index) (providers (postprocess config))
      in case provider of
           None \<Rightarrow> Inl TypeError
         | Some p \<Rightarrow>
             let newActiveId =
                   (if active_provider_id (postprocess config) = id_provider p
                    then or_else (map_option id_provider (at_index newProviders 0)) []
                    else active_provider_id (postprocess config))
             in Inr (prev\<lparr>postprocess :=
                       (postprocess prev)\<lparr>providers := newProviders,
                                          active_provider_id := newActiveId\<rparr>\<rparr>))"

text \<open>
  The active provider reference is valid when it names a provider of the list, or is
  empty when the list is.
\<close>

definition active_provider_valid :: "PostProcessConfig \<Rightarrow> bool" where
  "active_provider_valid pp =
     (if providers pp = [] then active_provider_id pp = []
      else active_provider_id pp \<in> id_provider ` set (providers pp))"

subsection \<open>Adding a provider and saving the configuration\<close>












section \<open>FrameCodec\<close>

type_synonym byte = "8 word"

text \<open>
  Modelled from the spec: the message types of a ProtocolFrame (section 3 of the
  specification); the codec is part of the backend, whose code is not among the sources.
\<close>

datatype MessageType =
    ClientHandshake | ClientAudio | ClientFinalize
  | ServerPartialResult | ServerFinalResult | ServerError

text \<open>
  Modelled from the spec: ProtocolFrame,
  \<^verbatim>\<open>{ messageType, compressed: bool, sequence: u32, payload: bytes }\<close>; the frame type
  of the backend is not among the sources.
\<close>

record ProtocolFrame =
  messageType :: MessageType
  compressed :: bool
  sequence :: "32 word"
  payload :: "byte list"

text \<open>Modelled from the spec: the one error of the codec, MalformedFrame (section 4.3).\<close>

datatype codec_error = MalformedFrame

text \<open>
  Modelled from the spec: the header byte of each message type. The specification fixes
  no numbering; the types are numbered in the order in which it lists them.
\<close>

fun messageType_code :: "MessageType \<Rightarrow> byte" where
  "messageType_code ClientHandshake = 0"
| "messageType_code ClientAudio = 1"
| "messageType_code ClientFinalize = 2"
| "messageType_code ServerPartialResult = 3"
| "messageType_code ServerFinalResult = 4"
| "messageType_code ServerError = 5"

text \<open>
  Modelled from the spec: reading the message type back; any other byte is an
  unrecognized messageType.
\<close>

definition messageType_of_code :: "byte \<Rightarrow> MessageType option" where
  "messageType_of_code b =
     (if b = 0 then Some ClientHandshake
      else if b = 1 then Some ClientAudio
      else if b = 2 then Some ClientFinalize
      else if b = 3 then Some ServerPartialResult
      else if b = 4 then Some ServerFinalResult
      else if b = 5 then Some ServerError
      else None)"

text \<open>Modelled from the spec: a 32-bit value as four bytes, big-endian.\<close>

definition be32 :: "32 word \<Rightarrow> byte list" where
  "be32 w = [ucast (drop_bit 24 w), ucast (drop_bit 16 w), ucast (drop_bit 8 w), ucast w]"

text \<open>Modelled from the spec: four big-endian bytes read as a 32-bit value.\<close>

definition from_be32 :: "byte \<Rightarrow> byte \<Rightarrow> byte \<Rightarrow> byte \<Rightarrow> 32 word" where
  "from_be32 a b c d =
     push_bit 24 (ucast a) OR push_bit 16 (ucast b) OR push_bit 8 (ucast c) OR ucast d"

text \<open>
  Modelled from the spec: \<^verbatim>\<open>encode(frame) -> bytes\<close> of section 4.3, the backend's
  encoder not being among the sources. A fixed-size header carries the message type, the
  compression flag and the sequence number; a 4-byte big-endian payload length follows,
  then the payload bytes. With the flag set, the payload goes through the compressor
  before its length is taken. The deflate-family compressor is the parameter
  \<open>compress\<close>.
\<close>

definition encode :: "(byte list \<Rightarrow> byte list) \<Rightarrow> ProtocolFrame \<Rightarrow> byte list" where
  "encode compress f =
     (let body = (if compressed f then compress (payload f) else payload f)
      in [messageType_code (messageType f), (if compressed f then 1 else 0)]
         @ be32 (sequence f)
         @ be32 (word_of_nat (length body))
         @ body)"

text \<open>
  Modelled from the spec: \<^verbatim>\<open>decode(bytes) -> ProtocolFrame\<close> of section 4.3, the
  backend's decoder not being among the sources. An unrecognized message type and a
  length field that differs from the size of the remaining buffer are MalformedFrame,
  and so are a buffer shorter than the header, a flag byte other than 0 and 1, and a
  payload that the decompressor (the parameter \<open>decompress\<close>) rejects. With the flag
  set, the payload is decompressed before it is returned.
\<close>

fun decode ::
  "(byte list \<Rightarrow> byte list option) \<Rightarrow> byte list \<Rightarrow> codec_error + ProtocolFrame" where
  "decode decompress (t # c # s1 # s2 # s3 # s4 # l1 # l2 # l3 # l4 # body) =
     (case messageType_of_code t of
        None \<Rightarrow> Inl MalformedFrame
      | Some mt \<Rightarrow>
          if c \<noteq> 0 \<and> c \<noteq> 1 then Inl MalformedFrame
          else if unat (from_be32 l1 l2 l3 l4) \<noteq> length body then Inl MalformedFrame
          else if c = 1 then
            (case decompress body of
               None \<Rightarrow> Inl MalformedFrame
             | Some p \<Rightarrow> Inr \<lparr>messageType = mt, compressed = True,
                               sequence = from_be32 s1 s2 s3 s4, payload = p\<rparr>)
          else Inr \<lparr>messageType = mt, compressed = False,
                    sequence = from_be32 s1 s2 s3 s4, payload = body\<rparr>)"
| "decode decompress _ = Inl MalformedFrame"

text \<open>
  Modelled from the spec: a small compressor with its inverse, to run the codec on;
  the specification names only the family (deflate) of the real one. It puts a marker
  byte in front of the data.
\<close>

definition marker_compress :: "byte list \<Rightarrow> byte list" where
  "marker_compress p = 120 # p"

text \<open>Modelled from the spec: the inverse of the stand-in compressor; data without
  the marker is rejected.\<close>

definition marker_decompress :: "byte list \<Rightarrow> byte list option" where
  "marker_decompress b = (case b of [] \<Rightarrow> None | x # p \<Rightarrow> if x = 120 then Some p else None)"

section \<open>Properties of the recording front end\<close>

lemmas prim_defs = setState_def setTranscript_def showToast_def consoleError_def invoke_def

text \<open>
  Claim C1. \<^verbatim>\<open>startRecording\<close> called in a state other than idle (recording or
  processing) returns at once: the component is left exactly as it was and no backend
  command is issued. Called in the idle state it issues exactly the command
  \<^verbatim>\<open>start_recording\<close>; it does not itself leave the idle state, and the
  \<^verbatim>\<open>recording-started\<close> event that follows brings the Recording state.
\<close>

theorem startRecording_only_from_idle:
  "(state a \<noteq> Idle \<longrightarrow>
      startRecording backend toString now a = a \<and>
      issued a (startRecording backend toString now a) = [])
   \<and> (state a = Idle \<longrightarrow>
      issued a (startRecording backend toString now a) = [start_recording] \<and>
      state (startRecording backend toString now a) = Idle \<and>
      state (listen now' recording_started (startRecording backend toString now a)) = Recording)"
  by (simp add: startRecording_def issued_def prim_defs Let_def split: option.split)

theorem startRecording_only_from_idle_witness:
  "startRecording (\<lambda>c. None) (\<lambda>e::string. e) 7
       \<lparr>state = Recording, transcript = ''hi'', toasts = [], trace = []\<rparr>
     = \<lparr>state = Recording, transcript = ''hi'', toasts = [], trace = []\<rparr>
   \<and> startRecording (\<lambda>c. None) (\<lambda>e::string. e) 7
       \<lparr>state = Processing, transcript = ''hi'', toasts = [], trace = []\<rparr>
     = \<lparr>state = Processing, transcript = ''hi'', toasts = [], trace = []\<rparr>
   \<and> issued \<lparr>state = Idle, transcript = ''hi'', toasts = [], trace = []\<rparr>
        (startRecording (\<lambda>c. None) (\<lambda>e::string. e) 7
           \<lparr>state = Idle, transcript = ''hi'', toasts = [], trace = []\<rparr>) = [start_recording]"
  using startRecording_only_from_idle
      [of "\<lparr>state = Recording, transcript = ''hi'', toasts = [], trace = []\<rparr>"
          "\<lambda>c. None" "\<lambda>e::string. e" 7]
    startRecording_only_from_idle
      [of "\<lparr>state = Processing, transcript = ''hi'', toasts = [], trace = []\<rparr>"
          "\<lambda>c. None" "\<lambda>e::string. e" 7]
    startRecording_only_from_idle
      [of "\<lparr>state = Idle, transcript = ''hi'', toasts = [], trace = []\<rparr>"
          "\<lambda>c. None" "\<lambda>e::string. e" 7]
  by simp

text \<open>
  Claim C2. \<^verbatim>\<open>stopRecording\<close> called in a state other than recording leaves the
  component exactly as it was and issues nothing. Called in the recording state it first
  sets the state to processing and only then issues the backend command
  \<^verbatim>\<open>stop_recording\<close>; when the command succeeds nothing else happens and the state
  is Processing.
\<close>

theorem stopRecording_only_from_recording:
  "(state a \<noteq> Recording \<longrightarrow>
      stopRecording backend toString now a = a \<and>
      issued a (stopRecording backend toString now a) = [])
   \<and> (state a = Recording \<longrightarrow>
      trace (stopRecording backend toString now a) =
        trace a @ [SetState Processing, Invoke stop_recording] @
          (case backend stop_recording of
             None \<Rightarrow> []
           | Some e \<Rightarrow> [ConsoleError ''Failed to stop recording:'' e,
                         ShowToast (toString e) Error, SetState Idle]) \<and>
      (backend stop_recording = None \<longrightarrow>
         state (stopRecording backend toString now a) = Processing))"
  by (simp add: stopRecording_def issued_def prim_defs Let_def split: option.split)

theorem stopRecording_only_from_recording_witness:
  "stopRecording (\<lambda>c. None) (\<lambda>e::string. e) 7
       \<lparr>state = Idle, transcript = ''hi'', toasts = [], trace = []\<rparr>
     = \<lparr>state = Idle, transcript = ''hi'', toasts = [], trace = []\<rparr>
   \<and> trace (stopRecording (\<lambda>c. None) (\<lambda>e::string. e) 7
       \<lparr>state = Recording, transcript = ''hi'', toasts = [], trace = []\<rparr>)
     = [SetState Processing, Invoke stop_recording]
   \<and> state (stopRecording (\<lambda>c. None) (\<lambda>e::string. e) 7
       \<lparr>state = Recording, transcript = ''hi'', toasts = [], trace = []\<rparr>) = Processing"
  using stopRecording_only_from_recording
      [of "\<lparr>state = Idle, transcript = ''hi'', toasts = [], trace = []\<rparr>"
          "\<lambda>c. None" "\<lambda>e::string. e" 7]
    stopRecording_only_from_recording
      [of "\<lparr>state = Recording, transcript = ''hi'', toasts = [], trace = []\<rparr>"
          "\<lambda>c. None" "\<lambda>e::string. e" 7]
  by simp

text \<open>
  Claim C3. On a \<^verbatim>\<open>transcript-update\<close> event the displayed transcript becomes the
  text of the event, whatever was displayed before, in the React component and in the
  Vue component alike.
\<close>

theorem transcript_update_replaces:
  "transcript (listen now (transcript_update text) a) = text
   \<and> transcript_vue (listen_vue (transcript_update text) v) = text"
  by (simp add: prim_defs)

text \<open>
  Claim C4. The claim is that an \<^verbatim>\<open>error\<close> event leaves the component in the idle
  state. The listener only shows the toast: an event that arrives in the processing state
  leaves the component in the processing state, and one that arrives in the recording
  state leaves it in the recording state.
\<close>

theorem error_listener_keeps_state:
  "state (listen 0 (error ''TransportClosed'')
            \<lparr>state = Processing, transcript = ''hello'', toasts = [],
             trace = ([] :: string action list)\<rparr>) = Processing
   \<and> state (listen 0 (error ''TransportClosed'')
            \<lparr>state = Recording, transcript = ''hello'', toasts = [],
             trace = ([] :: string action list)\<rparr>) = Recording"
  by (simp add: prim_defs)

text \<open>
  Claim C5. When the backend rejects \<^verbatim>\<open>start_recording\<close> with an error \<open>e\<close>, the
  component is in the idle state after the call, the message \<^verbatim>\<open>String(e)\<close> has been
  added to the toasts as an error toast, and the transcript is untouched; the only
  backend command issued is the rejected one.
\<close>

theorem startRecording_failure_stays_idle:
  assumes "state a = Idle" and "backend start_recording = Some e"
  shows "state (startRecording backend toString now a) = Idle
    \<and> toasts (startRecording backend toString now a) =
        toasts a @ [\<lparr>id_toast = now, message = toString e, type = Error\<rparr>]
    \<and> transcript (startRecording backend toString now a) = transcript a
    \<and> trace (startRecording backend toString now a) =
        trace a @ [Invoke start_recording, ConsoleError ''Failed to start recording:'' e,
                   ShowToast (toString e) Error, SetState Idle]"
  using assms by (simp add: startRecording_def prim_defs Let_def)

theorem startRecording_failure_stays_idle_witness:
  "state (startRecording (\<lambda>c. Some ''CredentialsMissing'') (\<lambda>e. e) 7
       \<lparr>state = Idle, transcript = ''hi'', toasts = [], trace = []\<rparr>) = Idle
   \<and> toasts (startRecording (\<lambda>c. Some ''CredentialsMissing'') (\<lambda>e. e) 7
       \<lparr>state = Idle, transcript = ''hi'', toasts = [], trace = []\<rparr>)
      = [\<lparr>id_toast = 7, message = ''CredentialsMissing'', type = Error\<rparr>]"
  using startRecording_failure_stays_idle
      [of "\<lparr>state = Idle, transcript = ''hi'', toasts = [], trace = []\<rparr>"
          "\<lambda>c. Some ''CredentialsMissing''" "''CredentialsMissing''" "\<lambda>e. e" 7]
  by simp

text \<open>
  Claim C6. On a \<^verbatim>\<open>recording-stopped\<close> event the state becomes idle and the
  displayed transcript is exactly the text of the event, for every text and every state
  before.
\<close>

theorem recording_stopped_sets_idle_and_text:
  "state (listen now (recording_stopped text) a) = Idle
   \<and> transcript (listen now (recording_stopped text) a) = text"
  by (simp add: prim_defs)

text \<open>
  Claim C9. On a \<^verbatim>\<open>recording-started\<close> event the component enters the recording
  state and the displayed transcript is the empty string, whatever was displayed before;
  the Vue component sets \<^verbatim>\<open>isRecording\<close>, clears \<^verbatim>\<open>isProcessing\<close> and
  empties its transcript.
\<close>

theorem recording_started_resets_transcript:
  "state (listen now recording_started a) = Recording
   \<and> transcript (listen now recording_started a) = []
   \<and> isRecording (listen_vue recording_started v)
   \<and> \<not> isProcessing (listen_vue recording_started v)
   \<and> transcript_vue (listen_vue recording_started v) = []"
  by (simp add: prim_defs)

section \<open>Properties of the provider list\<close>

lemma filter_from_keeps_all:
  "i < k \<Longrightarrow> filter_from (\<lambda>_ j. j \<noteq> i) k xs = xs"
  by (induction xs arbitrary: k) simp_all

lemma filter_from_delete:
  "k \<le> i \<Longrightarrow>
     filter_from (\<lambda>_ j. j \<noteq> i) k xs = take (nat (i - k)) xs @ drop (Suc (nat (i - k))) xs"
proof (induction xs arbitrary: k)
  case Nil
  then show ?case by simp
next
  case (Cons x xs)
  show ?case
  proof (cases "k = i")
    case True
    then show ?thesis by (simp add: filter_from_keeps_all)
  next
    case False
    with Cons.prems have step: "k + 1 \<le> i" by simp
    have idx: "nat (i - k) = Suc (nat (i - (k + 1)))"
      using step by simp
    from Cons.IH[OF step] False show ?thesis
      by (simp add: idx)
  qed
qed

lemma filter_index_delete:
  "0 \<le> i \<Longrightarrow> filter_index (\<lambda>_ j. j \<noteq> i) xs = take (nat i) xs @ drop (Suc (nat i)) xs"
  using filter_from_delete[of 0 i xs] by (simp add: filter_index_def)

lemma set_without_nth:
  "n < length xs \<Longrightarrow> set xs = insert (xs ! n) (set (take n xs @ drop (Suc n) xs))"
proof -
  assume "n < length xs"
  then have "xs = take n xs @ xs ! n # drop (Suc n) xs"
    by (rule id_take_nth_drop)
  then have "set xs = set (take n xs @ xs ! n # drop (Suc n) xs)"
    by simp
  then show ?thesis by simp
qed

lemma other_id_survives:
  assumes "n < length ps" and "a \<in> id_provider ` set ps" and "a \<noteq> id_provider (ps ! n)"
  shows "a \<in> id_provider ` set (take n ps @ drop (Suc n) ps)"
proof -
  from assms(2) obtain p where p: "p \<in> set ps" "a = id_provider p" by blast
  with assms(3) have "p \<noteq> ps ! n" by blast
  with p(1) set_without_nth[OF assms(1)] have "p \<in> set (take n ps @ drop (Suc n) ps)"
    by blast
  with p(2) show ?thesis by blast
qed

lemma at_index_in_range:
  "0 \<le> i \<Longrightarrow> i < int (length xs) \<Longrightarrow> at_index xs i = Some (xs ! nat i)"
  by (simp add: at_index_def)

lemma first_id_or_empty:
  "or_else (map_option id_provider (at_index xs 0)) [] =
     (case xs of [] \<Rightarrow> [] | p # _ \<Rightarrow> id_provider p)"
  by (cases xs) (simp_all add: at_index_def or_else_def)

lemma deleteProvider_in_range:
  assumes "0 \<le> index" and "index < int (length (providers (postprocess config)))"
  shows "deleteProvider config prev index =
    Inr (prev\<lparr>postprocess := (postprocess prev)
          \<lparr>providers := take (nat index) (providers (postprocess config)) @
                         drop (Suc (nat index)) (providers (postprocess config)),
           active_provider_id :=
             (if active_provider_id (postprocess config) =
                   id_provider (providers (postprocess config) ! nat index)
              then (case take (nat index) (providers (postprocess config)) @
                         drop (Suc (nat index)) (providers (postprocess config)) of
                      [] \<Rightarrow> [] | p # _ \<Rightarrow> id_provider p)
              else active_provider_id (postprocess config))\<rparr>\<rparr>)"
  using assms
  by (simp add: deleteProvider_def at_index_in_range filter_index_delete first_id_or_empty
        Let_def)

lemma deleteProvider_out_of_range:
  "index < 0 \<or> int (length (providers (postprocess config))) \<le> index \<Longrightarrow>
     deleteProvider config prev index = Inl TypeError"
  by (auto simp: deleteProvider_def at_index_def Let_def)

text \<open>
  Claim C10. For every configuration and every index of its provider list,
  \<^verbatim>\<open>deleteProvider\<close> returns a configuration whose provider list is the old one
  without the provider at that index. The active provider id is unchanged when it is not
  the id of the deleted provider; otherwise it is the id of the first remaining
  provider, or the empty string when none remains. The other fields of the postprocess
  record (\<^verbatim>\<open>enabled\<close>, \<^verbatim>\<open>mode\<close>) and the rest of the configuration are
  unchanged, and a valid active provider reference stays valid.
\<close>

theorem deleteProvider_active_reference:
  assumes "0 \<le> index" and "index < int (length (providers (postprocess c)))"
  shows "\<exists>c'. deleteProvider c c index = Inr c'
    \<and> providers (postprocess c') =
        take (nat index) (providers (postprocess c)) @
        drop (Suc (nat index)) (providers (postprocess c))
    \<and> active_provider_id (postprocess c') =
        (if active_provider_id (postprocess c) \<noteq>
              id_provider (providers (postprocess c) ! nat index)
         then active_provider_id (postprocess c)
         else case providers (postprocess c') of [] \<Rightarrow> [] | p # _ \<Rightarrow> id_provider p)
    \<and> enabled (postprocess c') = enabled (postprocess c)
    \<and> mode (postprocess c') = mode (postprocess c)
    \<and> c'\<lparr>postprocess := postprocess c\<rparr> = c
    \<and> (active_provider_valid (postprocess c) \<longrightarrow> active_provider_valid (postprocess c'))"
proof -
  let ?ps = "providers (postprocess c)"
  let ?n = "nat index"
  let ?rest = "take ?n ?ps @ drop (Suc ?n) ?ps"
  from assms have n: "?n < length ?ps" by simp
  have valid: "active_provider_id (postprocess c) \<in> id_provider ` set ?rest"
    if "active_provider_valid (postprocess c)"
      and "active_provider_id (postprocess c) \<noteq> id_provider (?ps ! ?n)"
  proof -
    from n have "?ps \<noteq> []" by auto
    with that(1) have "active_provider_id (postprocess c) \<in> id_provider ` set ?ps"
      by (simp add: active_provider_valid_def)
    from other_id_survives[OF n this that(2)] show ?thesis .
  qed
  define newActive where "newActive =
    (if active_provider_id (postprocess c) = id_provider (?ps ! ?n)
     then (case ?rest of [] \<Rightarrow> [] | p # _ \<Rightarrow> id_provider p)
     else active_provider_id (postprocess c))"
  define c' where "c' = c\<lparr>postprocess := (postprocess c)
                          \<lparr>providers := ?rest, active_provider_id := newActive\<rparr>\<rparr>"
  have run: "deleteProvider c c index = Inr c'"
    unfolding c'_def newActive_def by (rule deleteProvider_in_range[OF assms])
  have ps': "providers (postprocess c') = ?rest"
    and act': "active_provider_id (postprocess c') = newActive"
    and en': "enabled (postprocess c') = enabled (postprocess c)"
    and mo': "mode (postprocess c') = mode (postprocess c)"
    and rest': "c'\<lparr>postprocess := postprocess c\<rparr> = c"
    by (simp_all add: c'_def)
  have act: "active_provider_id (postprocess c') =
      (if active_provider_id (postprocess c) \<noteq> id_provider (?ps ! ?n)
       then active_provider_id (postprocess c)
       else case providers (postprocess c') of [] \<Rightarrow> [] | p # _ \<Rightarrow> id_provider p)"
    by (simp add: act' ps' newActive_def)
  have keeps: "active_provider_valid (postprocess c')"
    if v: "active_provider_valid (postprocess c)"
  proof (cases "active_provider_id (postprocess c) = id_provider (?ps ! ?n)")
    case True
    then have "newActive = (case ?rest of [] \<Rightarrow> [] | p # _ \<Rightarrow> id_provider p)"
      by (simp add: newActive_def)
    then show ?thesis
      unfolding active_provider_valid_def ps' act' by (cases ?rest) simp_all
  next
    case False
    then have na: "newActive = active_provider_id (postprocess c)"
      by (simp add: newActive_def)
    from valid[OF v False] have mem: "newActive \<in> id_provider ` set ?rest"
      by (simp only: na)
    then have ne: "?rest \<noteq> []" by auto
    show ?thesis
      unfolding active_provider_valid_def ps' act' using ne mem by (simp only: if_False)
  qed
  from run ps' act en' mo' rest' keeps show ?thesis by blast
qed

theorem deleteProvider_active_reference_witness:
  "(0::int) \<le> 0 \<and> (0::int) < int (length (providers (postprocess twoProviders)))
   \<and> active_provider_valid (postprocess twoProviders)
   \<and> (\<exists>c'. deleteProvider twoProviders twoProviders 0 = Inr c'
         \<and> map id_provider (providers (postprocess c')) = [''openai-1'']
         \<and> active_provider_id (postprocess c') = ''openai-1''
         \<and> active_provider_valid (postprocess c'))"
proof -
  have ps: "providers (postprocess twoProviders) =
      [\<lparr>id_provider = ''default'', name = ''DeepSeek'',
        api_base = ''https://api.deepseek.com/v1'', api_key = [],
        model = ''deepseek-chat''\<rparr>,
       \<lparr>id_provider = ''openai-1'', name = ''OpenAI'',
        api_base = ''https://api.openai.com/v1'', api_key = [],
        model = ''gpt-4o-mini''\<rparr>]"
    and act: "active_provider_id (postprocess twoProviders) = ''default''"
    by (simp_all add: twoProviders_def initialConfig_def)
  have h1: "(0::int) \<le> 0" by simp
  have h2: "(0::int) < int (length (providers (postprocess twoProviders)))"
    by (simp add: ps)
  have v: "active_provider_valid (postprocess twoProviders)"
    by (simp add: active_provider_valid_def ps act)
  from deleteProvider_active_reference[OF h1 h2] v
  obtain c' where c': "deleteProvider twoProviders twoProviders 0 = Inr c'"
    "providers (postprocess c') =
       take (nat 0) (providers (postprocess twoProviders)) @
       drop (Suc (nat 0)) (providers (postprocess twoProviders))"
    "active_provider_id (postprocess c') =
       (if active_provider_id (postprocess twoProviders) \<noteq>
             id_provider (providers (postprocess twoProviders) ! nat 0)
        then active_provider_id (postprocess twoProviders)
        else case providers (postprocess c') of [] \<Rightarrow> [] | p # _ \<Rightarrow> id_provider p)"
    "active_provider_valid (postprocess c')"
    by blast
  from c'(2) have ps': "providers (postprocess c') =
      [\<lparr>id_provider = ''openai-1'', name = ''OpenAI'',
        api_base = ''https://api.openai.com/v1'', api_key = [],
        model = ''gpt-4o-mini''\<rparr>]"
    by (simp add: ps)
  from c'(3) have act': "active_provider_id (postprocess c') = ''openai-1''"
    by (simp add: ps ps' act)
  from h1 h2 v c'(1) c'(4) ps' act' show ?thesis by simp
qed





section \<open>Properties of the frame codec\<close>

lemma messageType_code_inverse: "messageType_of_code (messageType_code mt) = Some mt"
  by (cases mt) (simp_all add: messageType_of_code_def)

lemma from_be32_be32:
  "from_be32 (ucast (drop_bit 24 w)) (ucast (drop_bit 16 w)) (ucast (drop_bit 8 w)) (ucast w) = w"
proof (rule bit_word_eqI)
  fix n :: nat
  assume "n < LENGTH(32)"
  then have n: "n < 32" by simp
  consider "n < 8" | "8 \<le> n" "n < 16" | "16 \<le> n" "n < 24" | "24 \<le> n"
    by linarith
  then show "bit (from_be32 (ucast (drop_bit 24 w)) (ucast (drop_bit 16 w))
                   (ucast (drop_bit 8 w)) (ucast w)) n = bit w n"
    using n by cases (auto simp: from_be32_def bit_simps)
qed

lemma marker_round_trip: "marker_decompress (marker_compress p) = Some p"
  by (simp add: marker_compress_def marker_decompress_def)

text \<open>
  Claim C8. For a compressor and a decompressor that are inverse to each other, and
  every frame whose payload as sent (compressed when the flag is set, as it is
  otherwise) is shorter than \<open>2 ^ 32\<close> bytes, so that the 4-byte length field holds
  its length, decoding the encoded frame gives the frame back, with the flag set or not.
\<close>

theorem FrameCodec_round_trip:
  assumes "\<And>p. decompress (compress p) = Some p"
    and "length (if compressed f then compress (payload f) else payload f) < 2 ^ 32"
  shows "decode decompress (encode compress f) = Inr f"
  using assms
  by (simp add: encode_def be32_def messageType_code_inverse from_be32_be32 unat_of_nat
        Let_def)

theorem FrameCodec_round_trip_witness:
  "encode marker_compress
       \<lparr>messageType = ClientAudio, compressed = True, sequence = 258, payload = [1, 2, 3]\<rparr>
     = [1, 1, 0, 0, 1, 2, 0, 0, 0, 4, 120, 1, 2, 3]
   \<and> decode marker_decompress [1, 1, 0, 0, 1, 2, 0, 0, 0, 4, 120, 1, 2, 3]
     = Inr \<lparr>messageType = ClientAudio, compressed = True, sequence = 258,
            payload = [1, 2, 3]\<rparr>
   \<and> decode marker_decompress (encode marker_compress
       \<lparr>messageType = ServerFinalResult, compressed = False, sequence = 4,
        payload = [104, 105]\<rparr>)
     = Inr \<lparr>messageType = ServerFinalResult, compressed = False, sequence = 4,
            payload = [104, 105]\<rparr>"
proof -
  let ?f = "\<lparr>messageType = ClientAudio, compressed = True, sequence = 258,
             payload = [1, 2, 3]\<rparr>"
  let ?g = "\<lparr>messageType = ServerFinalResult, compressed = False, sequence = 4,
             payload = [104, 105]\<rparr>"
  have enc: "encode marker_compress ?f = [1, 1, 0, 0, 1, 2, 0, 0, 0, 4, 120, 1, 2, 3]"
    by (simp add: encode_def be32_def marker_compress_def)
  have lf: "length (if compressed ?f then marker_compress (payload ?f) else payload ?f)
      < 2 ^ 32"
    by (simp add: marker_compress_def)
  have lg: "length (if compressed ?g then marker_compress (payload ?g) else payload ?g)
      < 2 ^ 32"
    by simp
  from FrameCodec_round_trip[of marker_decompress marker_compress ?f, OF marker_round_trip lf]
  have "decode marker_decompress (encode marker_compress ?f) = Inr ?f" .
  then have dec: "decode marker_decompress [1, 1, 0, 0, 1, 2, 0, 0, 0, 4, 120, 1, 2, 3] = Inr ?f"
    by (simp only: enc)
  from FrameCodec_round_trip[of marker_decompress marker_compress ?g, OF marker_round_trip lg]
  have "decode marker_decompress (encode marker_compress ?g) = Inr ?g" .
  with enc dec show ?thesis by simp
qed

end
